theory Spec2Isabelle
  imports Main "HOL-Library.Word" "HOL-Library.Sublist"
begin

section \<open>The HTTP test server (server.go)\<close>

text \<open>
  A shallow embedding of \<^verbatim>\<open>server.go\<close>: the \<^verbatim>\<open>Server\<close> struct with its
  counters, the two handlers \<^verbatim>\<open>Index\<close> and \<^verbatim>\<open>Health\<close>, \<^verbatim>\<open>WriteSummary\<close>,
  \<^verbatim>\<open>NewServer\<close> and the two sequential paths of \<^verbatim>\<open>Listen\<close> (the caller's path
  up to \<^verbatim>\<open>ListenAndServe\<close>, and the body of the goroutine that waits for a signal).

  Go strings and byte slices are \<^typ>\<open>string\<close> (lists of 8-bit characters), so
  \<^const>\<open>length\<close> is Go's \<^verbatim>\<open>len\<close>. The \<^verbatim>\<open>int64\<close> counters are 64-bit words:
  \<open>+\<close> wraps around as Go's does, and \<^const>\<open>sint\<close> reads the signed value.

  Not modelled: the scheduling of goroutines (every operation below runs to its end
  before the next one starts), the router and the two middlewares \<^verbatim>\<open>tracing\<close> and
  \<^verbatim>\<open>logging\<close> (they touch neither the counters nor the flag), the log lines of
  the handlers, and the arguments of the other log lines (a log line of the lifecycle
  is recorded by its format string).
\<close>

subsection \<open>Library functions the server calls\<close>

text \<open>
  \<^verbatim>\<open>strings.Index(s, sep)\<close>: the index of the first instance of \<open>sep\<close> in \<open>s\<close>,
  or \<open>None\<close> where Go returns \<open>-1\<close>.
\<close>

fun strings_Index :: "string \<Rightarrow> string \<Rightarrow> nat option" where
  "strings_Index [] sep = (if sep = [] then Some 0 else None)"
| "strings_Index (c # cs) sep =
     (if prefix sep (c # cs) then Some 0 else map_option Suc (strings_Index cs sep))"

lemma strings_Index_bound:
  "strings_Index s sep = Some m \<Longrightarrow> m + length sep \<le> length s"
proof (induction s arbitrary: m)
  case Nil
  then show ?case by (simp split: if_splits)
next
  case (Cons c cs)
  show ?case
  proof (cases "prefix sep (c # cs)")
    case True
    with Cons.prems have "m = 0" by simp
    with prefix_length_le [OF True] show ?thesis by simp
  next
    case False
    with Cons.prems obtain k where "strings_Index cs sep = Some k" "m = Suc k"
      by auto
    with Cons.IH [of k] show ?thesis by simp
  qed
qed

text \<open>
  \<^verbatim>\<open>strings.Split(s, sep)\<close> for a non-empty separator, as the loop of Go's
  \<^verbatim>\<open>genSplit\<close> runs: cut at the first instance of \<open>sep\<close>, go on behind it, and
  end with what is left. (With an empty separator Go splits after each UTF-8 sequence;
  the server never does that, and the function is left unspecified there.)
\<close>

function (sequential) strings_Split :: "string \<Rightarrow> string \<Rightarrow> string list" where
  "strings_Split s (c # cs) =
     (case strings_Index s (c # cs) of
        None \<Rightarrow> [s]
      | Some m \<Rightarrow> take m s # strings_Split (drop (m + length (c # cs)) s) (c # cs))"
  by pat_completeness auto
termination
proof (relation "measure (\<lambda>(s, sep). length s)")
  show "wf (measure (\<lambda>(s, sep). length s))" by simp
next
  fix s :: string and c cs m
  assume "strings_Index s (c # cs) = Some m"
  then have "m + length (c # cs) \<le> length s" by (rule strings_Index_bound)
  then show "((drop (m + length (c # cs)) s, c # cs), (s, c # cs))
      \<in> measure (\<lambda>(s, sep). length s)"
    by simp
qed

declare strings_Split.simps [simp del]

text \<open>
  \<^verbatim>\<open>http.Header\<close> is a \<^verbatim>\<open>map[string][]string\<close>; \<^verbatim>\<open>Get\<close> returns the first value
  stored under the key and the empty string when there is none. The key
  \<^verbatim>\<open>Content-Type\<close> is already in canonical form.
\<close>

definition Header_Get :: "(string \<rightharpoonup> string list) \<Rightarrow> string \<Rightarrow> string" where
  "Header_Get h k = (case h k of None \<Rightarrow> [] | Some vs \<Rightarrow> (case vs of [] \<Rightarrow> [] | v # _ \<Rightarrow> v))"

definition StatusNoContent :: nat where
  "StatusNoContent = 204"

definition StatusBadRequest :: nat where
  "StatusBadRequest = 400"

definition StatusServiceUnavailable :: nat where
  "StatusServiceUnavailable = 503"

text \<open>
  \<^verbatim>\<open>utf8.DecodeRuneInString\<close>, by the tables of Go's \<^verbatim>\<open>unicode/utf8\<close>. The first
  byte gives the length of the sequence and the range its second byte must lie in
  (\<^verbatim>\<open>first\<close> and \<^verbatim>\<open>acceptRanges\<close>); the later bytes lie in \<open>0x80..0xBF\<close>.
\<close>

definition byte_in :: "char \<Rightarrow> nat \<Rightarrow> nat \<Rightarrow> bool" where
  "byte_in c lo hi = (lo \<le> of_char c \<and> of_char c \<le> hi)"

definition utf8_first :: "char \<Rightarrow> (nat \<times> nat \<times> nat) option" where
  "utf8_first c =
     (let b = of_char c :: nat in
      if b < 0x80 then Some (1, 0, 0)
      else if b < 0xC2 then None
      else if b < 0xE0 then Some (2, 0x80, 0xBF)
      else if b = 0xE0 then Some (3, 0xA0, 0xBF)
      else if b < 0xED then Some (3, 0x80, 0xBF)
      else if b = 0xED then Some (3, 0x80, 0x9F)
      else if b < 0xF0 then Some (3, 0x80, 0xBF)
      else if b = 0xF0 then Some (4, 0x90, 0xBF)
      else if b < 0xF4 then Some (4, 0x80, 0xBF)
      else if b = 0xF4 then Some (4, 0x80, 0x8F)
      else None)"

text \<open>
  The size of the well-formed sequence at the head of \<open>s\<close>; \<open>None\<close> where Go
  returns \<^verbatim>\<open>RuneError\<close> with a size of at most 1 (a malformed or cut-off sequence,
  or the empty string).
\<close>

definition utf8_rune_size :: "string \<Rightarrow> nat option" where
  "utf8_rune_size s =
     (case s of
        [] \<Rightarrow> None
      | s0 # _ \<Rightarrow>
          (case utf8_first s0 of
             None \<Rightarrow> None
           | Some (sz, lo, hi) \<Rightarrow>
               if sz \<le> 1 then Some 1
               else if length s < sz then None
               else if \<not> byte_in (s ! 1) lo hi then None
               else if sz \<le> 2 then Some 2
               else if \<not> byte_in (s ! 2) 0x80 0xBF then None
               else if sz \<le> 3 then Some 3
               else if \<not> byte_in (s ! 3) 0x80 0xBF then None
               else Some 4))"

lemma utf8_rune_size_pos: "utf8_rune_size s = Some n \<Longrightarrow> 0 < n"
  by (auto simp: utf8_rune_size_def split: list.splits option.splits if_splits)

text \<open>\<^verbatim>\<open>utf8.ValidString\<close>: the string is a sequence of well-formed runes.\<close>

function utf8_ValidString :: "string \<Rightarrow> bool" where
  "utf8_ValidString [] = True"
| "utf8_ValidString (c # cs) =
     (case utf8_rune_size (c # cs) of
        None \<Rightarrow> False
      | Some n \<Rightarrow> utf8_ValidString (drop n (c # cs)))"
  by pat_completeness auto
termination
proof (relation "measure length")
  show "wf (measure length)" by simp
next
  fix c :: char and cs n
  assume "utf8_rune_size (c # cs) = Some n"
  then have "0 < n" by (rule utf8_rune_size_pos)
  then show "(drop n (c # cs), c # cs) \<in> measure length" by simp
qed

text \<open>
  \<^verbatim>\<open>encoding/json\<close> writes a Go string as a JSON string "coerced to valid UTF-8,
  replacing invalid bytes with the Unicode replacement rune" (U+FFFD, the bytes
  \<open>EF BF BD\<close>). \<open>json_string s\<close> is the text of that JSON string, which is what a
  reader of the file gets back: the encoder's loop copies a well-formed rune (escaping
  some, which changes the file's bytes and not the text) and replaces a byte at which
  \<^verbatim>\<open>DecodeRuneInString\<close> fails.
\<close>

function json_string :: "string \<Rightarrow> string" where
  "json_string [] = []"
| "json_string (c # cs) =
     (case utf8_rune_size (c # cs) of
        None \<Rightarrow> [CHR 0xEF, CHR 0xBF, CHR 0xBD] @ json_string cs
      | Some n \<Rightarrow> take n (c # cs) @ json_string (drop n (c # cs)))"
  by pat_completeness auto
termination
proof (relation "measure length")
  show "wf (measure length)" by simp
next
  fix c :: char and cs
  show "(cs, c # cs) \<in> measure length" by simp
next
  fix c :: char and cs n
  assume "utf8_rune_size (c # cs) = Some n"
  then have "0 < n" by (rule utf8_rune_size_pos)
  then show "(drop n (c # cs), c # cs) \<in> measure length" by simp
qed

text \<open>A JSON document, as far as the summary needs it.\<close>

datatype json = JNumber int | JString string | JObject "(string \<times> json) list"


subsection \<open>Requests, responses and the server's state\<close>

text \<open>A Go \<^verbatim>\<open>error\<close> value, with its message.\<close>

datatype go_error = go_error string

fun Error :: "go_error \<Rightarrow> string" where
  "Error (go_error msg) = msg"

text \<open>
  What a handler sees of a request: its header, and what \<^verbatim>\<open>ioutil.ReadAll(r.Body)\<close>
  returns, which is either an error or all the bytes of the body.
\<close>

record Request =
  Header :: "string \<rightharpoonup> string list"
  Body :: "go_error + string"

text \<open>
  What a handler does to its \<^verbatim>\<open>ResponseWriter\<close>: the status it passes to
  \<^verbatim>\<open>WriteHeader\<close> and the bytes it passes to \<^verbatim>\<open>Write\<close>.
\<close>

record Response =
  StatusCode :: nat
  Written :: string

text \<open>
  The \<^verbatim>\<open>Server\<close> struct. Its fields \<^verbatim>\<open>file\<close>, \<^verbatim>\<open>logger\<close> and \<^verbatim>\<open>server\<close> are handles
  (an unused file, the logger, the \<^verbatim>\<open>http.Server\<close>) and hold no data of their own.
\<close>

record Server =
  address :: string
  ByteTotal :: "64 word"
  FirstMessage :: string
  LastMessage :: string
  MessageCount :: "64 word"
  RequestCount :: "64 word"

text \<open>\<^verbatim>\<open>http.Error(w, msg, code)\<close> sends the status and the message on a line.\<close>

definition http_Error :: "string \<Rightarrow> nat \<Rightarrow> Response" where
  "http_Error msg code = \<lparr>StatusCode = code, Written = msg @ ''\<newline>''\<rparr>"

subsection \<open>The ingestion handler\<close>

text \<open>
  The \<^verbatim>\<open>switch\<close> of \<^verbatim>\<open>Index\<close> on the content type. Go compares the strings for
  equality; where no case matches, \<open>messages\<close> stays the empty slice it was
  initialised with.
\<close>

definition Index_messages :: "string \<Rightarrow> string \<Rightarrow> string list" where
  "Index_messages contentType body =
     (if contentType = ''application/json'' then strings_Split body ''\<newline>''
      else if contentType = ''application/ndjson'' then strings_Split body ''\<newline>''
      else if contentType = ''application/x-ndjson'' then strings_Split body ''\<newline>''
      else if contentType = ''text/plain'' then strings_Split body ''\<newline>''
      else [])"

text \<open>
  \<^verbatim>\<open>Index\<close>, statement by statement. The handler returns the updated server and
  the response. \<^verbatim>\<open>int64(n)\<close> of a length is \<^term>\<open>of_nat n\<close>.
\<close>

definition Index :: "Server \<Rightarrow> Request \<Rightarrow> Server \<times> Response" where
  "Index s0 r =
     (let s = s0\<lparr>RequestCount := RequestCount s0 + 1\<rparr>;
          contentType = Header_Get (Header r) ''Content-Type''
      in case Body r of
           Inl err \<Rightarrow> (s, http_Error ''can't read body'' StatusBadRequest)
         | Inr bodyBytes \<Rightarrow>
             (let byteLen = length bodyBytes;
                  body = bodyBytes;
                  messages = Index_messages contentType body;
                  messageCount = length messages;
                  s' =
                    (if messageCount > 0 then
                       (let s1 = s\<lparr>ByteTotal := ByteTotal s + of_nat byteLen\<rparr>;
                            s2 = s1\<lparr>MessageCount := MessageCount s1 + of_nat messageCount\<rparr>;
                            firstMessage = messages ! 0;
                            lastMessage = messages ! (messageCount - 1);
                            s3 = (if FirstMessage s2 = [] \<and> firstMessage \<noteq> []
                                  then s2\<lparr>FirstMessage := messages ! 0\<rparr> else s2)
                        in if lastMessage \<noteq> [] then s3\<lparr>LastMessage := lastMessage\<rparr> else s3)
                     else s)
              in (s', \<lparr>StatusCode = StatusNoContent, Written = ''\<newline>''\<rparr>)))"

text \<open>
  \<^verbatim>\<open>NewServer\<close> builds the struct with the counters at zero; the two messages keep
  Go's zero value, the empty string.
\<close>

definition NewServer :: "string \<Rightarrow> Server" where
  "NewServer addr =
     \<lparr>address = addr, ByteTotal = 0, FirstMessage = [], LastMessage = [],
      MessageCount = 0, RequestCount = 0\<rparr>"

subsection \<open>The process: health flag, summary file, lifecycle\<close>

text \<open>
  What the process does to the outside, in the order it does it: log lines, file
  operations, the store to the health flag, the calls on the \<^verbatim>\<open>http.Server\<close> and
  the exit.
\<close>

datatype event =
    EvLog string
  | EvRemove string
  | EvWriteFile string json
  | EvStoreHealthy "32 word"
  | EvListenAndServe
  | EvSetKeepAlivesEnabled bool
  | EvShutdown
  | EvExit int

text \<open>
  The state of the process: the one \<^verbatim>\<open>Server\<close>, the package variable
  \<^verbatim>\<open>healthy\<close> (an \<^verbatim>\<open>int32\<close>), the files (a file holds a JSON document), whether
  the \<^verbatim>\<open>http.Server\<close> is bound and serving, the events so far, and the exit status
  once the process has exited.
\<close>

record World =
  srv :: Server
  healthy :: "32 word"
  files :: "string \<rightharpoonup> json"
  listening :: bool
  trace :: "event list"
  exited :: "int option"

definition emit :: "event \<Rightarrow> World \<Rightarrow> World" where
  "emit e w = w\<lparr>trace := trace w @ [e]\<rparr>"

definition os_Exit :: "int \<Rightarrow> World \<Rightarrow> World" where
  "os_Exit code w = (emit (EvExit code) w)\<lparr>exited := Some code\<rparr>"

text \<open>\<^verbatim>\<open>log.Fatal\<close> and \<^verbatim>\<open>Fatalf\<close>: print, then \<^verbatim>\<open>os.Exit(1)\<close>.\<close>

definition log_Fatal :: "string \<Rightarrow> World \<Rightarrow> World" where
  "log_Fatal line w = os_Exit 1 (emit (EvLog line) w)"

definition summaryPath :: string where
  "summaryPath = ''/tmp/http_test_server_summary.json''"

text \<open>
  \<^verbatim>\<open>json.Marshal(s)\<close> for the \<^verbatim>\<open>Server\<close> struct: the exported fields in the order
  of their declaration, under the names of their \<^verbatim>\<open>json\<close> tags; the unexported
  fields are left out. It returns no error for a struct of integers and strings.
\<close>

definition json_Marshal :: "Server \<Rightarrow> json" where
  "json_Marshal s =
     JObject
       [(''byte_total'', JNumber (sint (ByteTotal s))),
        (''first_message'', JString (json_string (FirstMessage s))),
        (''last_message'', JString (json_string (LastMessage s))),
        (''message_count'', JNumber (sint (MessageCount s))),
        (''request_count'', JNumber (sint (RequestCount s)))]"

text \<open>
  \<^verbatim>\<open>WriteSummary\<close>. Its argument is the error \<^verbatim>\<open>ioutil.WriteFile\<close> returns
  (\<open>None\<close> for \<^verbatim>\<open>nil\<close>); a write that fails is taken to leave the files as they
  were.
\<close>

definition WriteSummary :: "go_error option \<Rightarrow> World \<Rightarrow> World" where
  "WriteSummary writeErr w =
     (let sBytes = json_Marshal (srv w) in
      case writeErr of
        Some err \<Rightarrow> log_Fatal (Error err) w
      | None \<Rightarrow>
          emit (EvLog ''Wrote activity summary to %s'')
            ((emit (EvWriteFile summaryPath sBytes) w)
               \<lparr>files := (files w)(summaryPath \<mapsto> sBytes)\<rparr>))"

text \<open>The health handler; it reads the flag and writes a status.\<close>

definition Health :: "32 word \<Rightarrow> Response" where
  "Health h =
     (if h = 1 then \<lparr>StatusCode = StatusNoContent, Written = []\<rparr>
      else \<lparr>StatusCode = StatusServiceUnavailable, Written = []\<rparr>)"

text \<open>
  \<^verbatim>\<open>Listen\<close>, the caller's path: the log line, the store to \<^verbatim>\<open>healthy\<close>, then
  \<^verbatim>\<open>ListenAndServe\<close>, which binds the address and serves. Its argument is the
  outcome of \<^verbatim>\<open>ListenAndServe\<close>: \<open>Some err\<close> when it returns an error other than
  \<^verbatim>\<open>ErrServerClosed\<close> (the address cannot be bound), \<open>None\<close> when it binds and
  serves; the state returned is then the one in which the server is serving.
\<close>

definition Listen :: "go_error option \<Rightarrow> World \<Rightarrow> World" where
  "Listen serveErr w =
     (let w1 = emit (EvLog ''Server is ready to handle requests at'') w;
          w2 = (emit (EvStoreHealthy 1) w1)\<lparr>healthy := 1\<rparr>;
          w3 = emit EvListenAndServe w2
      in case serveErr of
           None \<Rightarrow> w3\<lparr>listening := True\<rparr>
         | Some err \<Rightarrow> log_Fatal ''Could not listen on %s: %v\<newline>'' w3)"

text \<open>
  The first goroutine of \<^verbatim>\<open>Listen\<close>, from the moment a signal arrives on
  \<^verbatim>\<open>gracefulStop\<close>. Its arguments are the errors of \<^verbatim>\<open>ioutil.WriteFile\<close> and of
  \<^verbatim>\<open>Shutdown\<close>. A fatal log inside \<^verbatim>\<open>WriteSummary\<close> ends the process there.
\<close>

definition Listen_gracefulStop :: "go_error option \<Rightarrow> go_error option \<Rightarrow> World \<Rightarrow> World" where
  "Listen_gracefulStop writeErr shutdownErr w =
     (let w1 = emit (EvLog ''Caught sig: %+v'') w;
          w2 = WriteSummary writeErr w1
      in if exited w2 \<noteq> None then w2
         else
           (let w3 = emit (EvSetKeepAlivesEnabled False) w2;
                w4 = (emit EvShutdown w3)\<lparr>listening := False\<rparr>
            in case shutdownErr of
                 Some err \<Rightarrow> log_Fatal ''Could not gracefully shutdown the server: %v\<newline>'' w4
               | None \<Rightarrow> os_Exit 0 (emit (EvLog ''Server stopped'') w4)))"

text \<open>The second goroutine of \<^verbatim>\<open>Listen\<close>, at a tick of its ticker.\<close>

definition Listen_tick :: "World \<Rightarrow> World" where
  "Listen_tick w = emit (EvLog ''Received %v messages across %v requests'') w"

text \<open>
  The process when \<^verbatim>\<open>NewServer(addr)\<close> has returned: Go has initialised
  \<^verbatim>\<open>healthy\<close> to zero, and \<^verbatim>\<open>NewServer\<close> has removed the summary file of an
  earlier run from the files \<open>fs\<close> it found.
\<close>

definition process_start :: "string \<Rightarrow> (string \<rightharpoonup> json) \<Rightarrow> World" where
  "process_start addr fs =
     \<lparr>srv = NewServer addr, healthy = 0, files = fs(summaryPath := None),
      listening = False,
      trace = [EvRemove summaryPath, EvLog ''Server is starting...''],
      exited = None\<rparr>"

text \<open>
  The operations of the running process, one at a time: a request served by
  \<^verbatim>\<open>Index\<close> or by \<^verbatim>\<open>Health\<close>, \<^verbatim>\<open>Listen\<close>, a tick, a signal. A process that has
  exited does nothing more.
\<close>

datatype operation =
    ServeIndex Request
  | ServeHealth
  | DoListen "go_error option"
  | Tick
  | Signal "go_error option" "go_error option"

fun step :: "World \<Rightarrow> operation \<Rightarrow> World" where
  "step w (ServeIndex r) =
     (if exited w = None then w\<lparr>srv := fst (Index (srv w) r)\<rparr> else w)"
| "step w ServeHealth = w"
| "step w (DoListen serveErr) = (if exited w = None then Listen serveErr w else w)"
| "step w Tick = (if exited w = None then Listen_tick w else w)"
| "step w (Signal writeErr shutdownErr) =
     (if exited w = None then Listen_gracefulStop writeErr shutdownErr w else w)"

definition run :: "World \<Rightarrow> operation list \<Rightarrow> World" where
  "run w ops = foldl step w ops"

text \<open>A sequence of requests served by \<^verbatim>\<open>Index\<close>, one after the other.\<close>

definition serve_all :: "Server \<Rightarrow> Request list \<Rightarrow> Server" where
  "serve_all s rs = foldl (\<lambda>s r. fst (Index s r)) s rs"

subsection \<open>Notions for stating the properties\<close>

text \<open>The content types of the specification's allow-list.\<close>

definition allow_list :: "string set" where
  "allow_list =
     {''application/json'', ''application/ndjson'', ''application/x-ndjson'', ''text/plain''}"

text \<open>
  A request with one \<^verbatim>\<open>Content-Type\<close> header whose body reads as \<open>b\<close>, and one
  whose body cannot be read.
\<close>

definition post :: "string \<Rightarrow> string \<Rightarrow> Request" where
  "post ct b = \<lparr>Header = [''Content-Type'' \<mapsto> [ct]], Body = Inr b\<rparr>"

definition post_unreadable :: "string \<Rightarrow> go_error \<Rightarrow> Request" where
  "post_unreadable ct e = \<lparr>Header = [''Content-Type'' \<mapsto> [ct]], Body = Inl e\<rparr>"

text \<open>
  The first candidate record of a request, \<open>messages[0]\<close>; the empty string when
  the request has no candidate record.
\<close>

definition first_record :: "Request \<Rightarrow> string" where
  "first_record r =
     (case Body r of
        Inl err \<Rightarrow> []
      | Inr b \<Rightarrow>
          (case Index_messages (Header_Get (Header r) ''Content-Type'') b of
             [] \<Rightarrow> []
           | m # _ \<Rightarrow> m))"

text \<open>The events an operation has added, and the values stored to the flag among them.\<close>

definition new_events :: "World \<Rightarrow> World \<Rightarrow> event list" where
  "new_events w w' = drop (length (trace w)) (trace w')"

definition stores :: "event list \<Rightarrow> 32 word list" where
  "stores es = concat (map (\<lambda>e. case e of EvStoreHealthy v \<Rightarrow> [v] | _ \<Rightarrow> []) es)"

text \<open>
  An integer that an \<^verbatim>\<open>int64\<close> holds, and the operations none of whose additions
  overflows. Only a request served by \<^verbatim>\<open>Index\<close> in a running process adds
  anything: one to \<^verbatim>\<open>RequestCount\<close> and, when the request has a candidate record,
  the length of the body to \<^verbatim>\<open>ByteTotal\<close> and the number of candidate records to
  \<^verbatim>\<open>MessageCount\<close>.
\<close>

definition fits_int64 :: "int \<Rightarrow> bool" where
  "fits_int64 k = (- (2 ^ 63) \<le> k \<and> k < 2 ^ 63)"

fun no_overflow :: "World \<Rightarrow> operation \<Rightarrow> bool" where
  "no_overflow w (ServeIndex r) =
     (if exited w \<noteq> None then True
      else
        fits_int64 (sint (RequestCount (srv w)) + 1)
        \<and> (case Body r of
              Inl err \<Rightarrow> True
            | Inr b \<Rightarrow>
                (case Index_messages (Header_Get (Header r) ''Content-Type'') b of
                   [] \<Rightarrow> True
                 | m # ms \<Rightarrow>
                     fits_int64 (sint (ByteTotal (srv w)) + int (length b))
                     \<and> fits_int64 (sint (MessageCount (srv w)) + int (length (m # ms))))))"
| "no_overflow w ServeHealth = True"
| "no_overflow w (DoListen serveErr) = True"
| "no_overflow w Tick = True"
| "no_overflow w (Signal writeErr shutdownErr) = True"

section \<open>Properties\<close>

subsection \<open>Splitting on a one-byte separator\<close>

text \<open>
  \<^const>\<open>strings_Split\<close> returns at least one segment. On a one-byte separator it
  returns one segment more than the string has separators, no segment holds the
  separator, and the segments joined by the separator give the string back.
\<close>

lemma strings_Split_nonempty: "strings_Split s (c # cs) \<noteq> []"
  by (simp add: strings_Split.simps split: option.splits)

lemma strings_Index_char:
  "strings_Index s [c] =
     (if c \<in> set s then Some (length (takeWhile (\<lambda>x. x \<noteq> c) s)) else None)"
  by (induction s) auto

lemma drop_Suc_takeWhile:
  "c \<in> set s \<Longrightarrow>
     s = takeWhile (\<lambda>x. x \<noteq> c) s @ c # drop (Suc (length (takeWhile (\<lambda>x. x \<noteq> c) s))) s"
  by (induction s) auto

lemma take_takeWhile:
  "take (length (takeWhile P s)) s = takeWhile P s"
  by (induction s) auto

lemma strings_Split_char_None:
  "c \<notin> set s \<Longrightarrow> strings_Split s [c] = [s]"
  by (subst strings_Split.simps) (simp add: strings_Index_char)

lemma strings_Split_char_Some:
  "c \<in> set s \<Longrightarrow>
     strings_Split s [c] =
       takeWhile (\<lambda>x. x \<noteq> c) s
         # strings_Split (drop (Suc (length (takeWhile (\<lambda>x. x \<noteq> c) s))) s) [c]"
  by (subst strings_Split.simps) (simp add: strings_Index_char take_takeWhile)

lemma drop_Suc_takeWhile_less:
  "c \<in> set s \<Longrightarrow> length (drop (Suc (length (takeWhile (\<lambda>x. x \<noteq> c) s))) s) < length s"
  by (cases s) simp_all

lemma strings_Split_char_length:
  "length (strings_Split s [c]) = Suc (count_list s c)"
proof (induction "length s" arbitrary: s rule: less_induct)
  case less
  show ?case
  proof (cases "c \<in> set s")
    case False
    then show ?thesis by (simp add: strings_Split_char_None)
  next
    case True
    let ?rest = "drop (Suc (length (takeWhile (\<lambda>x. x \<noteq> c) s))) s"
    have s: "s = takeWhile (\<lambda>x. x \<noteq> c) s @ c # ?rest"
      using True by (rule drop_Suc_takeWhile)
    have IH: "length (strings_Split ?rest [c]) = Suc (count_list ?rest c)"
      using drop_Suc_takeWhile_less [OF True] by (rule less)
    have "c \<notin> set (takeWhile (\<lambda>x. x \<noteq> c) s)"
      by (auto dest: set_takeWhileD)
    then have "count_list (takeWhile (\<lambda>x. x \<noteq> c) s) c = 0"
      by simp
    then have "count_list s c = Suc (count_list ?rest c)"
      by (subst s) simp
    with IH show ?thesis by (simp add: strings_Split_char_Some [OF True])
  qed
qed

lemma strings_Split_char_join:
  "concat (map (\<lambda>m. c # m) (strings_Split s [c])) = c # s"
proof (induction "length s" arbitrary: s rule: less_induct)
  case less
  show ?case
  proof (cases "c \<in> set s")
    case False
    then show ?thesis by (simp add: strings_Split_char_None)
  next
    case True
    let ?rest = "drop (Suc (length (takeWhile (\<lambda>x. x \<noteq> c) s))) s"
    have s: "takeWhile (\<lambda>x. x \<noteq> c) s @ c # ?rest = s"
      using drop_Suc_takeWhile [OF True] by simp
    have IH: "concat (map (\<lambda>m. c # m) (strings_Split ?rest [c])) = c # ?rest"
      using drop_Suc_takeWhile_less [OF True] by (rule less)
    have "concat (map (\<lambda>m. c # m) (strings_Split s [c]))
        = c # takeWhile (\<lambda>x. x \<noteq> c) s @ c # ?rest"
      by (simp add: strings_Split_char_Some [OF True] IH)
    with s show ?thesis by simp
  qed
qed

subsection \<open>The paths of the ingestion handler\<close>

lemma Index_messages_allowed:
  "ct \<in> allow_list \<Longrightarrow> Index_messages ct b = strings_Split b ''\<newline>''"
  by (auto simp: Index_messages_def allow_list_def)

lemma Index_messages_other:
  "ct \<notin> allow_list \<Longrightarrow> Index_messages ct b = []"
  by (simp add: Index_messages_def allow_list_def)

lemma Index_read_error:
  "Body r = Inl e \<Longrightarrow>
     Index s r =
       (s\<lparr>RequestCount := RequestCount s + 1\<rparr>,
        http_Error ''can't read body'' StatusBadRequest)"
  by (simp add: Index_def)

lemma Index_no_messages:
  "Body r = Inr b \<Longrightarrow> Index_messages (Header_Get (Header r) ''Content-Type'') b = [] \<Longrightarrow>
     Index s r =
       (s\<lparr>RequestCount := RequestCount s + 1\<rparr>,
        \<lparr>StatusCode = StatusNoContent, Written = ''\<newline>''\<rparr>)"
  by (simp add: Index_def)

lemma Index_counts:
  assumes "Body r = Inr b"
    and "Index_messages (Header_Get (Header r) ''Content-Type'') b = ms"
    and "ms \<noteq> []"
  shows "MessageCount (fst (Index s r)) = MessageCount s + of_nat (length ms)"
    and "ByteTotal (fst (Index s r)) = ByteTotal s + of_nat (length b)"
  using assms by (simp_all add: Index_def Let_def)

lemma Index_RequestCount: "RequestCount (fst (Index s r)) = RequestCount s + 1"
  by (cases "Body r") (simp_all add: Index_def Let_def)

lemma Index_sets_FirstMessage:
  "FirstMessage (fst (Index s r))
     = (if FirstMessage s = [] then first_record r else FirstMessage s)"
proof (cases "Body r")
  case (Inl e)
  then show ?thesis by (simp add: Index_read_error first_record_def)
next
  case (Inr b)
  show ?thesis
  proof (cases "Index_messages (Header_Get (Header r) ''Content-Type'') b")
    case Nil
    with Inr show ?thesis by (simp add: Index_no_messages first_record_def)
  next
    case (Cons m ms)
    with Inr show ?thesis by (simp add: Index_def Let_def first_record_def)
  qed
qed

lemma post_simps:
  "Header_Get (Header (post ct b)) ''Content-Type'' = ct"
  "Body (post ct b) = Inr b"
  "Header_Get (Header (post_unreadable ct e)) ''Content-Type'' = ct"
  "Body (post_unreadable ct e) = Inl e"
  by (simp_all add: post_def post_unreadable_def Header_Get_def)

subsection \<open>Claims about the ingestion handler\<close>

text \<open>
  Claim C1. For a request whose content type is one of the four of the allow-list and
  whose body is \<open>b\<close>, \<^verbatim>\<open>Index\<close> adds to \<^verbatim>\<open>MessageCount\<close> the number of segments
  that splitting \<open>b\<close> on the newline gives, and to \<^verbatim>\<open>ByteTotal\<close> the length of \<open>b\<close>
  in bytes, whatever the segments are (empty or not). The additions are those of
  \<^verbatim>\<open>int64\<close>.
\<close>

theorem Index_allow_listed_counts:
  assumes "Header_Get (Header r) ''Content-Type'' \<in> allow_list"
    and "Body r = Inr b"
  shows "MessageCount (fst (Index s r))
           = MessageCount s + of_nat (length (strings_Split b ''\<newline>''))
       \<and> ByteTotal (fst (Index s r)) = ByteTotal s + of_nat (length b)"
proof -
  have ms: "Index_messages (Header_Get (Header r) ''Content-Type'') b
              = strings_Split b ''\<newline>''"
    using assms(1) by (rule Index_messages_allowed)
  have ne: "strings_Split b ''\<newline>'' \<noteq> []"
    by (rule strings_Split_nonempty)
  from Index_counts [OF assms(2) ms ne] show ?thesis by simp
qed

text \<open>
  The scenario of the claim: \<^verbatim>\<open>"a\nb\nc"\<close> as \<^verbatim>\<open>text/plain\<close> on a new server has
  three segments and five bytes.
\<close>

theorem Index_allow_listed_counts_witness:
  "Header_Get (Header (post ''text/plain'' ''a\<newline>b\<newline>c'')) ''Content-Type'' \<in> allow_list
   \<and> Body (post ''text/plain'' ''a\<newline>b\<newline>c'') = Inr ''a\<newline>b\<newline>c''
   \<and> strings_Split ''a\<newline>b\<newline>c'' ''\<newline>'' = [''a'', ''b'', ''c'']
   \<and> MessageCount (fst (Index (NewServer ''localhost:8080'')
        (post ''text/plain'' ''a\<newline>b\<newline>c''))) = 3
   \<and> ByteTotal (fst (Index (NewServer ''localhost:8080'')
        (post ''text/plain'' ''a\<newline>b\<newline>c''))) = 5"
  using Index_allow_listed_counts
    [of "post ''text/plain'' ''a\<newline>b\<newline>c''" "''a\<newline>b\<newline>c''"
        "NewServer ''localhost:8080''"]
  by (simp add: post_simps allow_list_def NewServer_def strings_Split.simps)

text \<open>
  Claim C2, as the code has it. \<^verbatim>\<open>Index\<close> looks at the first candidate record of a
  request only. So, after any sequence of requests, \<^verbatim>\<open>FirstMessage\<close> is the value it
  had before if that was not empty, and otherwise the first candidate record of the
  earliest request whose first candidate record is not empty (the empty string if
  there is none). Once it is not empty, no request changes it, whatever its first
  segment is.
\<close>

theorem serve_all_FirstMessage:
  "FirstMessage (serve_all s rs) =
     (if FirstMessage s \<noteq> [] then FirstMessage s
      else (case filter (\<lambda>m. m \<noteq> []) (map first_record rs) of
              [] \<Rightarrow> []
            | m # _ \<Rightarrow> m))"
  unfolding serve_all_def
proof (induction rs arbitrary: s)
  case Nil
  show ?case by simp
next
  case (Cons r rs)
  show ?case by (simp add: Cons.IH Index_sets_FirstMessage)
qed

text \<open>
  Four requests in a row: the first segment of the first two is empty, the third
  sets \<^verbatim>\<open>FirstMessage\<close> to \<^verbatim>\<open>x\<close>, the fourth does not change it.
\<close>

theorem serve_all_FirstMessage_witness:
  "FirstMessage (serve_all (NewServer ''localhost:8080'')
     [post ''text/plain'' ''\<newline>first'', post ''text/plain'' [],
      post ''text/plain'' ''x\<newline>y'', post ''text/plain'' ''z'']) = ''x''"
  using serve_all_FirstMessage
    [of "NewServer ''localhost:8080''"
        "[post ''text/plain'' ''\<newline>first'', post ''text/plain'' [],
          post ''text/plain'' ''x\<newline>y'', post ''text/plain'' ''z'']"]
  by (simp add: first_record_def post_simps Index_messages_def NewServer_def
      strings_Split.simps)

text \<open>
  The claim as it was stated takes the first segment that is not empty. The body
  \<^verbatim>\<open>"\nfirst"\<close> as \<^verbatim>\<open>text/plain\<close> has the segments \<^verbatim>\<open>""\<close> and \<^verbatim>\<open>"first"\<close>; on a new
  server it leaves \<^verbatim>\<open>FirstMessage\<close> empty, and \<^verbatim>\<open>LastMessage\<close> is \<^verbatim>\<open>"first"\<close>.
\<close>

theorem Index_FirstMessage_counterexample:
  "strings_Split ''\<newline>first'' ''\<newline>'' = [[], ''first'']
   \<and> FirstMessage (fst (Index (NewServer ''localhost:8080'')
        (post ''text/plain'' ''\<newline>first''))) = []
   \<and> FirstMessage (fst (Index (NewServer ''localhost:8080'')
        (post ''text/plain'' ''\<newline>first''))) \<noteq> ''first''
   \<and> LastMessage (fst (Index (NewServer ''localhost:8080'')
        (post ''text/plain'' ''\<newline>first''))) = ''first''"
  by (simp add: Index_def Index_messages_def post_simps NewServer_def strings_Split.simps
      Let_def)

text \<open>
  Claim C3, as the code has it. When the body cannot be read, \<^verbatim>\<open>Index\<close> answers 400
  and leaves \<^verbatim>\<open>MessageCount\<close>, \<^verbatim>\<open>ByteTotal\<close>, \<^verbatim>\<open>FirstMessage\<close> and
  \<^verbatim>\<open>LastMessage\<close> as they were; \<^verbatim>\<open>RequestCount\<close> has been incremented before the
  body is read, so it is one more than before.
\<close>

theorem Index_read_error_counters:
  assumes "Body r = Inl e"
  shows "StatusCode (snd (Index s r)) = 400
       \<and> RequestCount (fst (Index s r)) = RequestCount s + 1
       \<and> MessageCount (fst (Index s r)) = MessageCount s
       \<and> ByteTotal (fst (Index s r)) = ByteTotal s
       \<and> FirstMessage (fst (Index s r)) = FirstMessage s
       \<and> LastMessage (fst (Index s r)) = LastMessage s"
  using assms by (simp add: Index_read_error http_Error_def StatusBadRequest_def)

theorem Index_read_error_counters_witness:
  "Body (post_unreadable ''text/plain'' (go_error ''unexpected EOF''))
     = Inl (go_error ''unexpected EOF'')
   \<and> StatusCode (snd (Index (NewServer ''localhost:8080'')
        (post_unreadable ''text/plain'' (go_error ''unexpected EOF'')))) = 400
   \<and> RequestCount (fst (Index (NewServer ''localhost:8080'')
        (post_unreadable ''text/plain'' (go_error ''unexpected EOF'')))) = 1
   \<and> MessageCount (fst (Index (NewServer ''localhost:8080'')
        (post_unreadable ''text/plain'' (go_error ''unexpected EOF'')))) = 0
   \<and> ByteTotal (fst (Index (NewServer ''localhost:8080'')
        (post_unreadable ''text/plain'' (go_error ''unexpected EOF'')))) = 0"
  using Index_read_error_counters
    [of "post_unreadable ''text/plain'' (go_error ''unexpected EOF'')"
        "go_error ''unexpected EOF''" "NewServer ''localhost:8080''"]
  by (simp add: post_simps NewServer_def)

text \<open>
  The claim as it was stated says that \<^verbatim>\<open>RequestCount\<close> is unchanged on this path.
  On a new server a request whose body cannot be read takes it from 0 to 1.
\<close>

theorem Index_read_error_requestCount_counterexample:
  "RequestCount (NewServer ''localhost:8080'') = 0
   \<and> StatusCode (snd (Index (NewServer ''localhost:8080'')
        (post_unreadable ''text/plain'' (go_error ''unexpected EOF'')))) = 400
   \<and> RequestCount (fst (Index (NewServer ''localhost:8080'')
        (post_unreadable ''text/plain'' (go_error ''unexpected EOF'')))) = 1
   \<and> RequestCount (fst (Index (NewServer ''localhost:8080'')
        (post_unreadable ''text/plain'' (go_error ''unexpected EOF''))))
       \<noteq> RequestCount (NewServer ''localhost:8080'')"
  by (simp add: Index_def post_simps NewServer_def http_Error_def StatusBadRequest_def)

text \<open>
  Claim C4. For a request whose content type is not in the allow-list, \<^verbatim>\<open>Index\<close>
  leaves \<^verbatim>\<open>MessageCount\<close> and \<^verbatim>\<open>ByteTotal\<close> as they were, and whatever the content
  \<open>b\<close> of its body is, the answer is 204.
\<close>

theorem Index_other_content_type:
  assumes "Header_Get (Header r) ''Content-Type'' \<notin> allow_list"
  shows "MessageCount (fst (Index s r)) = MessageCount s
       \<and> ByteTotal (fst (Index s r)) = ByteTotal s
       \<and> (\<forall>b. Body r = Inr b \<longrightarrow> StatusCode (snd (Index s r)) = 204)"
proof (cases "Body r")
  case (Inl e)
  then show ?thesis by (simp add: Index_read_error)
next
  case (Inr b)
  with assms show ?thesis
    by (simp add: Index_no_messages Index_messages_other StatusNoContent_def)
qed

text \<open>The scenario of the claim: \<^verbatim>\<open>"x"\<close> as \<^verbatim>\<open>application/xml\<close>.\<close>

theorem Index_other_content_type_witness:
  "Header_Get (Header (post ''application/xml'' ''x'')) ''Content-Type'' \<notin> allow_list
   \<and> Body (post ''application/xml'' ''x'') = Inr ''x''
   \<and> MessageCount (fst (Index (NewServer ''localhost:8080'')
        (post ''application/xml'' ''x''))) = 0
   \<and> ByteTotal (fst (Index (NewServer ''localhost:8080'')
        (post ''application/xml'' ''x''))) = 0
   \<and> StatusCode (snd (Index (NewServer ''localhost:8080'')
        (post ''application/xml'' ''x''))) = 204"
  using Index_other_content_type
    [of "post ''application/xml'' ''x''" "NewServer ''localhost:8080''"]
  by (simp add: post_simps allow_list_def NewServer_def)

text \<open>
  Claim C5. Every call of \<^verbatim>\<open>Index\<close> increments \<^verbatim>\<open>RequestCount\<close> by one, whatever
  the request is and however it ends: the increment is the first statement of the
  handler, before the header is looked at and the body is read.
\<close>

theorem Index_increments_RequestCount:
  "RequestCount (fst (Index s r)) = RequestCount s + 1"
  by (rule Index_RequestCount)

text \<open>
  Claim C9. The content type is matched by equality of strings: the candidate records
  are the segments of the body when the content type is one of the four strings of
  the allow-list and none otherwise. So \<^verbatim>\<open>application/json; charset=utf-8\<close> and
  \<^verbatim>\<open>Text/Plain\<close> give no candidate record, and a request with no candidate record
  adds nothing to \<^verbatim>\<open>MessageCount\<close> and \<^verbatim>\<open>ByteTotal\<close>.
\<close>

theorem Index_messages_exact_match:
  "Index_messages ct b = (if ct \<in> allow_list then strings_Split b ''\<newline>'' else [])
   \<and> Index_messages ''application/json; charset=utf-8'' b = []
   \<and> Index_messages ''Text/Plain'' b = []
   \<and> (Body r = Inr b \<and> Index_messages (Header_Get (Header r) ''Content-Type'') b = []
        \<longrightarrow> MessageCount (fst (Index s r)) = MessageCount s
          \<and> ByteTotal (fst (Index s r)) = ByteTotal s)"
proof -
  have "Index_messages ct b = (if ct \<in> allow_list then strings_Split b ''\<newline>'' else [])"
    by (simp add: Index_messages_allowed Index_messages_other)
  moreover have "Index_messages ''application/json; charset=utf-8'' b = []"
    by (simp add: Index_messages_def)
  moreover have "Index_messages ''Text/Plain'' b = []"
    by (simp add: Index_messages_def)
  moreover have "Body r = Inr b \<and> Index_messages (Header_Get (Header r) ''Content-Type'') b = []
        \<longrightarrow> MessageCount (fst (Index s r)) = MessageCount s
          \<and> ByteTotal (fst (Index s r)) = ByteTotal s"
    by (simp add: Index_no_messages)
  ultimately show ?thesis by simp
qed

theorem Index_messages_exact_match_witness:
  "Index_messages ''text/plain'' ''a\<newline>b'' = [''a'', ''b'']
   \<and> Index_messages ''Text/Plain'' ''a\<newline>b'' = []
   \<and> Body (post ''Text/Plain'' ''a\<newline>b'') = Inr ''a\<newline>b''
   \<and> Index_messages (Header_Get (Header (post ''Text/Plain'' ''a\<newline>b'')) ''Content-Type'')
        ''a\<newline>b'' = []
   \<and> MessageCount (fst (Index (NewServer ''localhost:8080'')
        (post ''Text/Plain'' ''a\<newline>b''))) = 0
   \<and> ByteTotal (fst (Index (NewServer ''localhost:8080'')
        (post ''Text/Plain'' ''a\<newline>b''))) = 0"
  using Index_messages_exact_match
    [of "''text/plain''" "''a\<newline>b''" "post ''Text/Plain'' ''a\<newline>b''"
        "NewServer ''localhost:8080''"]
    Index_messages_exact_match
    [of "''Text/Plain''" "''a\<newline>b''" "post ''Text/Plain'' ''a\<newline>b''"
        "NewServer ''localhost:8080''"]
  by (simp add: post_simps allow_list_def NewServer_def strings_Split.simps)

subsection \<open>The process: helper facts\<close>

lemmas world_defs = emit_def os_Exit_def log_Fatal_def WriteSummary_def Listen_def
  Listen_gracefulStop_def Listen_tick_def Let_def

lemma step_healthy: "healthy w = 1 \<Longrightarrow> healthy (step w op) = 1"
  by (cases op) (simp_all add: world_defs split: option.splits)

lemma run_healthy: "healthy w = 1 \<Longrightarrow> healthy (run w ops) = 1"
  unfolding run_def by (induction ops arbitrary: w) (simp_all add: step_healthy)

lemma step_srv_other:
  "(\<And>r. op \<noteq> ServeIndex r) \<Longrightarrow> srv (step w op) = srv w"
  by (cases op) (auto simp: world_defs split: option.splits)

lemma serve_all_RequestCount:
  "RequestCount (serve_all s rs) = RequestCount s + of_nat (length rs)"
  unfolding serve_all_def
  by (induction rs arbitrary: s) (simp_all add: Index_RequestCount)


lemma utf8_ValidString_ascii:
  "(\<And>c. c \<in> set s \<Longrightarrow> (of_char c :: nat) < 0x80) \<Longrightarrow> utf8_ValidString s"
proof (induction s)
  case Nil
  show ?case by simp
next
  case (Cons c cs)
  have "(of_char c :: nat) < 0x80" by (rule Cons.prems) simp
  then have "utf8_rune_size (c # cs) = Some 1"
    by (simp add: utf8_rune_size_def utf8_first_def)
  moreover have "utf8_ValidString cs"
    by (rule Cons.IH) (simp add: Cons.prems)
  ultimately show ?case by simp
qed

text \<open>An \<^verbatim>\<open>int64\<close> addition that does not overflow adds the integers.\<close>

lemma sint_add_of_nat:
  assumes "fits_int64 (sint a + int n)"
  shows "sint (a + of_nat n :: 64 word) = sint a + int n"
proof -
  have "sint (a + of_nat n) = signed_take_bit 63 (sint a + sint (of_nat n :: 64 word))"
    by (simp add: sint_word_add)
  also have "sint (of_nat n :: 64 word) = signed_take_bit 63 (int n)"
    using sint_sbintrunc' [where 'a = 64, of "int n"] by simp
  also have "signed_take_bit 63 (sint a + signed_take_bit 63 (int n))
      = signed_take_bit 63 (signed_take_bit 63 (sint a) + signed_take_bit 63 (int n))"
    using signed_take_bit_add [of 63 "sint a" "signed_take_bit 63 (int n)"] by simp
  also have "\<dots> = signed_take_bit 63 (sint a + int n)"
    by (rule signed_take_bit_add)
  also have "\<dots> = sint a + int n"
    using assms by (simp add: fits_int64_def signed_take_bit_int_eq_self)
  finally show ?thesis .
qed

lemma sint_add_of_nat_le:
  "fits_int64 (sint a + int n) \<Longrightarrow> sint a \<le> sint (a + of_nat n :: 64 word)"
  by (simp add: sint_add_of_nat)

lemma sint_Suc_le:
  "fits_int64 (sint a + 1) \<Longrightarrow> sint a \<le> sint (a + 1 :: 64 word)"
  using sint_add_of_nat_le [of a 1] by simp

lemma Index_monotone:
  assumes rc: "fits_int64 (sint (RequestCount s) + 1)"
    and bt: "\<And>b. Body r = Inr b \<Longrightarrow>
      Index_messages (Header_Get (Header r) ''Content-Type'') b \<noteq> [] \<Longrightarrow>
      fits_int64 (sint (ByteTotal s) + int (length b))"
    and mc: "\<And>b. Body r = Inr b \<Longrightarrow>
      Index_messages (Header_Get (Header r) ''Content-Type'') b \<noteq> [] \<Longrightarrow>
      fits_int64 (sint (MessageCount s)
        + int (length (Index_messages (Header_Get (Header r) ''Content-Type'') b)))"
  shows "sint (RequestCount s) \<le> sint (RequestCount (fst (Index s r)))"
    and "sint (MessageCount s) \<le> sint (MessageCount (fst (Index s r)))"
    and "sint (ByteTotal s) \<le> sint (ByteTotal (fst (Index s r)))"
proof -
  show "sint (RequestCount s) \<le> sint (RequestCount (fst (Index s r)))"
    using rc by (simp add: Index_RequestCount sint_Suc_le)
next
  show "sint (MessageCount s) \<le> sint (MessageCount (fst (Index s r)))"
  proof (cases "Body r")
    case (Inl e)
    then show ?thesis by (simp add: Index_read_error)
  next
    case (Inr b)
    show ?thesis
    proof (cases "Index_messages (Header_Get (Header r) ''Content-Type'') b = []")
      case True
      with Inr show ?thesis by (simp add: Index_no_messages)
    next
      case False
      from Index_counts(1) [OF Inr refl False] mc [OF Inr False]
      show ?thesis by (simp add: sint_add_of_nat_le)
    qed
  qed
next
  show "sint (ByteTotal s) \<le> sint (ByteTotal (fst (Index s r)))"
  proof (cases "Body r")
    case (Inl e)
    then show ?thesis by (simp add: Index_read_error)
  next
    case (Inr b)
    show ?thesis
    proof (cases "Index_messages (Header_Get (Header r) ''Content-Type'') b = []")
      case True
      with Inr show ?thesis by (simp add: Index_no_messages)
    next
      case False
      from Index_counts(2) [OF Inr refl False] bt [OF Inr False]
      show ?thesis by (simp add: sint_add_of_nat_le)
    qed
  qed
qed

text \<open>
  The other way round: an addition of a length below \<open>2 ^ 64\<close> that does not fit
  wraps around to a lower value.
\<close>

lemma sint_add_of_nat_wraps:
  assumes "\<not> fits_int64 (sint a + int n)" and "n < 2 ^ 64"
  shows "sint (a + of_nat n :: 64 word) < sint a"
proof -
  have lo: "- (2 ^ 63) \<le> sint a" and hi: "sint a < 2 ^ 63"
    using sint_ge [of a] sint_lt [of a] by simp_all
  from assms(1) lo have big: "2 ^ 63 \<le> sint a + int n"
    by (simp add: fits_int64_def)
  have n: "int n < 2 ^ 64" using assms(2) by simp
  have "sint (a + of_nat n) = signed_take_bit 63 (sint a + sint (of_nat n :: 64 word))"
    by (simp add: sint_word_add)
  also have "sint (of_nat n :: 64 word) = signed_take_bit 63 (int n)"
    using sint_sbintrunc' [where 'a = 64, of "int n"] by simp
  also have "signed_take_bit 63 (sint a + signed_take_bit 63 (int n))
      = signed_take_bit 63 (signed_take_bit 63 (sint a) + signed_take_bit 63 (int n))"
    using signed_take_bit_add [of 63 "sint a" "signed_take_bit 63 (int n)"] by simp
  also have "\<dots> = signed_take_bit 63 (sint a + int n)"
    by (rule signed_take_bit_add)
  also have "\<dots> = signed_take_bit 63 (sint a + int n - 2 ^ 64)"
    by (simp add: signed_take_bit_eq_iff_take_bit_eq take_bit_eq_mod)
  also have "\<dots> = sint a + int n - 2 ^ 64"
    using big hi n by (intro signed_take_bit_int_eq_self) simp_all
  finally show ?thesis using n by simp
qed

subsection \<open>Scenarios\<close>

text \<open>
  Runs on concrete inputs, evaluated once: a new process that listens and takes
  \<^verbatim>\<open>"a\nb\nc"\<close> as \<^verbatim>\<open>text/plain\<close>, the same followed by \<^verbatim>\<open>"x\n"\<close>, and a process
  that takes the single byte \<open>0xFF\<close> and then a signal.
\<close>

lemma scenario_Index:
  "Index (NewServer ''localhost:8080'') (post ''text/plain'' ''a\<newline>b\<newline>c'')
     = (\<lparr>address = ''localhost:8080'', ByteTotal = 5, FirstMessage = ''a'',
         LastMessage = ''c'', MessageCount = 3, RequestCount = 1\<rparr>,
        \<lparr>StatusCode = StatusNoContent, Written = ''\<newline>''\<rparr>)"
  by (simp add: Index_def Index_messages_def post_simps NewServer_def strings_Split.simps)

lemma scenario_run:
  "run (process_start ''localhost:8080'' Map.empty)
     [DoListen None, ServeIndex (post ''text/plain'' ''a\<newline>b\<newline>c'')]
   = \<lparr>srv = \<lparr>address = ''localhost:8080'', ByteTotal = 5, FirstMessage = ''a'',
         LastMessage = ''c'', MessageCount = 3, RequestCount = 1\<rparr>,
      healthy = 1, files = Map.empty, listening = True,
      trace = [EvRemove summaryPath, EvLog ''Server is starting...'',
         EvLog ''Server is ready to handle requests at'', EvStoreHealthy 1,
         EvListenAndServe],
      exited = None\<rparr>"
  by (simp add: run_def Listen_def emit_def process_start_def
      scenario_Index [unfolded NewServer_def] NewServer_def)

lemma scenario_run_next:
  "run (process_start ''localhost:8080'' Map.empty)
     [DoListen None, ServeIndex (post ''text/plain'' ''a\<newline>b\<newline>c''),
      ServeIndex (post ''text/plain'' ''x\<newline>'')]
   = \<lparr>srv = \<lparr>address = ''localhost:8080'', ByteTotal = 7, FirstMessage = ''a'',
         LastMessage = ''c'', MessageCount = 5, RequestCount = 2\<rparr>,
      healthy = 1, files = Map.empty, listening = True,
      trace = [EvRemove summaryPath, EvLog ''Server is starting...'',
         EvLog ''Server is ready to handle requests at'', EvStoreHealthy 1,
         EvListenAndServe],
      exited = None\<rparr>"
proof -
  have "run (process_start ''localhost:8080'' Map.empty)
     [DoListen None, ServeIndex (post ''text/plain'' ''a\<newline>b\<newline>c''),
      ServeIndex (post ''text/plain'' ''x\<newline>'')]
    = step (run (process_start ''localhost:8080'' Map.empty)
        [DoListen None, ServeIndex (post ''text/plain'' ''a\<newline>b\<newline>c'')])
        (ServeIndex (post ''text/plain'' ''x\<newline>''))"
    by (simp add: run_def)
  then show ?thesis
    by (simp add: scenario_run Index_def Index_messages_def post_simps strings_Split.simps)
qed



subsection \<open>Claims about the summary, the health flag and the counters\<close>




text \<open>
  Claim C7, as the code has it. \<^verbatim>\<open>Listen\<close> stores 1 to \<^verbatim>\<open>healthy\<close> exactly once, and
  the store is the last thing it does before it calls \<^verbatim>\<open>ListenAndServe\<close>, which is
  where the address is bound: the flag is ready before the bind is tried, whether the
  bind then succeeds or not. No other operation stores to the flag.
\<close>

theorem Listen_stores_healthy_once:
  "healthy (Listen serveErr w) = 1
   \<and> stores (new_events w (Listen serveErr w)) = [1]
   \<and> takeWhile (\<lambda>e. e \<noteq> EvListenAndServe) (new_events w (Listen serveErr w))
        = [EvLog ''Server is ready to handle requests at'', EvStoreHealthy 1]
   \<and> EvListenAndServe \<in> set (new_events w (Listen serveErr w))
   \<and> ((\<forall>e. op \<noteq> DoListen e) \<longrightarrow>
        healthy (step w op) = healthy w \<and> stores (new_events w (step w op)) = [])"
proof -
  have "(\<forall>e. op \<noteq> DoListen e) \<longrightarrow>
      healthy (step w op) = healthy w \<and> stores (new_events w (step w op)) = []"
    by (cases op) (auto simp: world_defs stores_def new_events_def split: option.splits)
  moreover have "healthy (Listen serveErr w) = 1
   \<and> stores (new_events w (Listen serveErr w)) = [1]
   \<and> takeWhile (\<lambda>e. e \<noteq> EvListenAndServe) (new_events w (Listen serveErr w))
        = [EvLog ''Server is ready to handle requests at'', EvStoreHealthy 1]
   \<and> EvListenAndServe \<in> set (new_events w (Listen serveErr w))"
    by (cases serveErr) (simp_all add: world_defs stores_def new_events_def)
  ultimately show ?thesis by simp
qed

theorem Listen_stores_healthy_once_witness:
  "healthy (process_start ''localhost:8080'' Map.empty) = 0
   \<and> healthy (Listen None (process_start ''localhost:8080'' Map.empty)) = 1
   \<and> (\<forall>e. Signal None None \<noteq> DoListen e)
   \<and> healthy (step (Listen None (process_start ''localhost:8080'' Map.empty))
        (Signal None None)) = 1
   \<and> stores (new_events (Listen None (process_start ''localhost:8080'' Map.empty))
        (step (Listen None (process_start ''localhost:8080'' Map.empty))
          (Signal None None))) = []"
  using Listen_stores_healthy_once
    [of None "process_start ''localhost:8080'' Map.empty" "Signal None None"]
    Listen_stores_healthy_once
    [of None "Listen None (process_start ''localhost:8080'' Map.empty)" "Signal None None"]
  by (simp add: process_start_def)

text \<open>
  The claim as it was stated has the flag ready only once the listener is bound and
  serving. When the address cannot be bound, the flag is ready all the same, stored
  before \<^verbatim>\<open>ListenAndServe\<close> was called, and the process exits with a listener that
  was never bound.
\<close>

theorem Listen_ready_before_bind_counterexample:
  "healthy (process_start ''localhost:8080'' Map.empty) = 0
   \<and> healthy (Listen (Some (go_error ''listen tcp: address already in use''))
        (process_start ''localhost:8080'' Map.empty)) = 1
   \<and> listening (Listen (Some (go_error ''listen tcp: address already in use''))
        (process_start ''localhost:8080'' Map.empty)) = False
   \<and> trace (Listen (Some (go_error ''listen tcp: address already in use''))
        (process_start ''localhost:8080'' Map.empty))
      = [EvRemove summaryPath, EvLog ''Server is starting...'',
         EvLog ''Server is ready to handle requests at'', EvStoreHealthy 1,
         EvListenAndServe, EvLog ''Could not listen on %s: %v\<newline>'', EvExit 1]"
  by (simp add: world_defs process_start_def)

text \<open>
  Claim C8. \<^verbatim>\<open>Health\<close> answers 204 when the flag is 1 and 503 otherwise, and changes
  nothing in the process. Once the flag is 1 it stays 1 through every operation, and
  so through every sequence of operations.
\<close>

theorem Health_status_and_flag:
  "StatusCode (Health h) = (if h = 1 then 204 else 503)
   \<and> step w ServeHealth = w
   \<and> (healthy w = 1 \<longrightarrow> healthy (step w op) = 1)
   \<and> (healthy w = 1 \<longrightarrow> healthy (run w ops) = 1)"
  by (simp add: Health_def StatusNoContent_def StatusServiceUnavailable_def
      step_healthy run_healthy)

theorem Health_status_and_flag_witness:
  "StatusCode (Health (healthy (process_start ''localhost:8080'' Map.empty))) = 503
   \<and> healthy (Listen None (process_start ''localhost:8080'' Map.empty)) = 1
   \<and> StatusCode (Health (healthy (Listen None
        (process_start ''localhost:8080'' Map.empty)))) = 204
   \<and> healthy (step (Listen None (process_start ''localhost:8080'' Map.empty))
        (Signal None None)) = 1
   \<and> healthy (run (Listen None (process_start ''localhost:8080'' Map.empty))
        [ServeIndex (post ''text/plain'' ''a''), Tick, ServeHealth,
         Signal None (Some (go_error ''context deadline exceeded''))]) = 1"
  using Health_status_and_flag
    [of "healthy (process_start ''localhost:8080'' Map.empty)"
        "Listen None (process_start ''localhost:8080'' Map.empty)" "Signal None None"
        "[ServeIndex (post ''text/plain'' ''a''), Tick, ServeHealth,
          Signal None (Some (go_error ''context deadline exceeded''))]"]
    Health_status_and_flag
    [of "healthy (Listen None (process_start ''localhost:8080'' Map.empty))"
        "Listen None (process_start ''localhost:8080'' Map.empty)" "Signal None None"
        "[ServeIndex (post ''text/plain'' ''a''), Tick, ServeHealth,
          Signal None (Some (go_error ''context deadline exceeded''))]"]
  by (simp add: process_start_def Listen_def emit_def)

text \<open>
  Claim C10, as the code has it. The three counters are zero in a new server. Read as
  \<^verbatim>\<open>int64\<close> values, none of them is lower after an operation than before it, as
  long as no addition that the operation performs overflows. Only a request served
  by \<^verbatim>\<open>Index\<close> changes the server at all; every other operation leaves it as it
  is. And an increment of \<^verbatim>\<open>RequestCount\<close> that does not fit wraps around to a
  lower value.
\<close>

theorem counters_never_decrease_without_overflow:
  "RequestCount (NewServer a) = 0
   \<and> MessageCount (NewServer a) = 0
   \<and> ByteTotal (NewServer a) = 0
   \<and> (no_overflow w op \<longrightarrow>
        sint (RequestCount (srv w)) \<le> sint (RequestCount (srv (step w op)))
        \<and> sint (MessageCount (srv w)) \<le> sint (MessageCount (srv (step w op)))
        \<and> sint (ByteTotal (srv w)) \<le> sint (ByteTotal (srv (step w op))))
   \<and> ((\<forall>r. op \<noteq> ServeIndex r) \<longrightarrow> srv (step w op) = srv w)
   \<and> (exited w = None \<and> \<not> fits_int64 (sint (RequestCount (srv w)) + 1) \<longrightarrow>
        sint (RequestCount (srv (step w (ServeIndex r)))) < sint (RequestCount (srv w)))"
proof -
  have zero: "RequestCount (NewServer a) = 0 \<and> MessageCount (NewServer a) = 0
      \<and> ByteTotal (NewServer a) = 0"
    by (simp add: NewServer_def)
  have other: "(\<forall>r. op \<noteq> ServeIndex r) \<longrightarrow> srv (step w op) = srv w"
    by (simp add: step_srv_other)
  have mono: "sint (RequestCount (srv w)) \<le> sint (RequestCount (srv (step w op)))
       \<and> sint (MessageCount (srv w)) \<le> sint (MessageCount (srv (step w op)))
       \<and> sint (ByteTotal (srv w)) \<le> sint (ByteTotal (srv (step w op)))"
    if fits: "no_overflow w op"
  proof (cases "\<exists>r. op = ServeIndex r")
    case False
    then have "srv (step w op) = srv w" by (simp add: step_srv_other)
    then show ?thesis by simp
  next
    case True
    then obtain q where op: "op = ServeIndex q" by blast
    show ?thesis
    proof (cases "exited w = None")
      case False
      with op have "step w op = w" by auto
      then show ?thesis by simp
    next
      case running: True
      from fits op running have rc: "fits_int64 (sint (RequestCount (srv w)) + 1)"
        by simp
      have bt: "fits_int64 (sint (ByteTotal (srv w)) + int (length b))"
        if "Body q = Inr b"
          and "Index_messages (Header_Get (Header q) ''Content-Type'') b \<noteq> []" for b
        using fits op running that by (simp split: list.splits)
      have mc: "fits_int64 (sint (MessageCount (srv w))
          + int (length (Index_messages (Header_Get (Header q) ''Content-Type'') b)))"
        if "Body q = Inr b"
          and "Index_messages (Header_Get (Header q) ''Content-Type'') b \<noteq> []" for b
        using fits op running that by (simp split: list.splits)
      from Index_monotone [OF rc bt mc] op running show ?thesis by simp
    qed
  qed
  have wraps: "sint (RequestCount (srv (step w (ServeIndex r)))) < sint (RequestCount (srv w))"
    if "exited w = None" and "\<not> fits_int64 (sint (RequestCount (srv w)) + 1)"
    using that sint_add_of_nat_wraps [of "RequestCount (srv w)" 1]
    by (simp add: Index_RequestCount)
  from zero other mono wraps show ?thesis by blast
qed

text \<open>
  Four instances: a second request on a server that has taken one; a body as
  \<^verbatim>\<open>application/xml\<close> on a server whose \<^verbatim>\<open>ByteTotal\<close> holds the largest value
  (nothing is added to it, so nothing overflows); a signal, which leaves the server
  as it is; and a request on a server whose \<^verbatim>\<open>RequestCount\<close> holds the largest
  value.
\<close>

theorem counters_never_decrease_without_overflow_witness:
  "no_overflow
     (run (process_start ''localhost:8080'' Map.empty)
        [DoListen None, ServeIndex (post ''text/plain'' ''a\<newline>b\<newline>c'')])
     (ServeIndex (post ''text/plain'' ''x\<newline>''))
   \<and> sint (RequestCount (srv (run (process_start ''localhost:8080'' Map.empty)
        [DoListen None, ServeIndex (post ''text/plain'' ''a\<newline>b\<newline>c'')]))) = 1
   \<and> sint (RequestCount (srv (step (run (process_start ''localhost:8080'' Map.empty)
        [DoListen None, ServeIndex (post ''text/plain'' ''a\<newline>b\<newline>c'')])
        (ServeIndex (post ''text/plain'' ''x\<newline>''))))) = 2
   \<and> sint (MessageCount (srv (step (run (process_start ''localhost:8080'' Map.empty)
        [DoListen None, ServeIndex (post ''text/plain'' ''a\<newline>b\<newline>c'')])
        (ServeIndex (post ''text/plain'' ''x\<newline>''))))) = 5
   \<and> sint (ByteTotal (srv (step (run (process_start ''localhost:8080'' Map.empty)
        [DoListen None, ServeIndex (post ''text/plain'' ''a\<newline>b\<newline>c'')])
        (ServeIndex (post ''text/plain'' ''x\<newline>''))))) = 7
   \<and> no_overflow
        ((process_start ''localhost:8080'' Map.empty)
           \<lparr>srv := (NewServer ''localhost:8080'')\<lparr>ByteTotal := 0x7FFFFFFFFFFFFFFF\<rparr>\<rparr>)
        (ServeIndex (post ''application/xml'' ''x''))
   \<and> sint (ByteTotal (srv (step
        ((process_start ''localhost:8080'' Map.empty)
           \<lparr>srv := (NewServer ''localhost:8080'')\<lparr>ByteTotal := 0x7FFFFFFFFFFFFFFF\<rparr>\<rparr>)
        (ServeIndex (post ''application/xml'' ''x''))))) = 9223372036854775807
   \<and> (\<forall>r. Signal None None \<noteq> ServeIndex r)
   \<and> srv (step (run (process_start ''localhost:8080'' Map.empty)
        [DoListen None, ServeIndex (post ''text/plain'' ''a\<newline>b\<newline>c'')])
        (Signal None None))
      = srv (run (process_start ''localhost:8080'' Map.empty)
        [DoListen None, ServeIndex (post ''text/plain'' ''a\<newline>b\<newline>c'')])
   \<and> exited ((process_start ''localhost:8080'' Map.empty)
           \<lparr>srv := (NewServer ''localhost:8080'')\<lparr>RequestCount := 0x7FFFFFFFFFFFFFFF\<rparr>\<rparr>)
      = None
   \<and> \<not> fits_int64 (sint (RequestCount (srv
        ((process_start ''localhost:8080'' Map.empty)
           \<lparr>srv := (NewServer ''localhost:8080'')\<lparr>RequestCount := 0x7FFFFFFFFFFFFFFF\<rparr>\<rparr>)))
        + 1)
   \<and> sint (RequestCount (srv (step
        ((process_start ''localhost:8080'' Map.empty)
           \<lparr>srv := (NewServer ''localhost:8080'')\<lparr>RequestCount := 0x7FFFFFFFFFFFFFFF\<rparr>\<rparr>)
        (ServeIndex (post ''text/plain'' ''x''))))) = - 9223372036854775808"
proof -
  note first = counters_never_decrease_without_overflow
    [of "''localhost:8080''"
        "run (process_start ''localhost:8080'' Map.empty)
          [DoListen None, ServeIndex (post ''text/plain'' ''a\<newline>b\<newline>c'')]"
        "ServeIndex (post ''text/plain'' ''x\<newline>'')" "post ''text/plain'' ''x''"]
  note xml = counters_never_decrease_without_overflow
    [of "''localhost:8080''"
        "(process_start ''localhost:8080'' Map.empty)
           \<lparr>srv := (NewServer ''localhost:8080'')\<lparr>ByteTotal := 0x7FFFFFFFFFFFFFFF\<rparr>\<rparr>"
        "ServeIndex (post ''application/xml'' ''x'')" "post ''text/plain'' ''x''"]
  note signal = counters_never_decrease_without_overflow
    [of "''localhost:8080''"
        "run (process_start ''localhost:8080'' Map.empty)
          [DoListen None, ServeIndex (post ''text/plain'' ''a\<newline>b\<newline>c'')]"
        "Signal None None" "post ''text/plain'' ''x''"]
  note wrap = counters_never_decrease_without_overflow
    [of "''localhost:8080''"
        "(process_start ''localhost:8080'' Map.empty)
           \<lparr>srv := (NewServer ''localhost:8080'')\<lparr>RequestCount := 0x7FFFFFFFFFFFFFFF\<rparr>\<rparr>"
        "ServeIndex (post ''text/plain'' ''x'')" "post ''text/plain'' ''x''"]
  have a: "no_overflow
     (run (process_start ''localhost:8080'' Map.empty)
        [DoListen None, ServeIndex (post ''text/plain'' ''a\<newline>b\<newline>c'')])
     (ServeIndex (post ''text/plain'' ''x\<newline>''))
   \<and> sint (RequestCount (srv (run (process_start ''localhost:8080'' Map.empty)
        [DoListen None, ServeIndex (post ''text/plain'' ''a\<newline>b\<newline>c'')]))) = 1
   \<and> sint (RequestCount (srv (step (run (process_start ''localhost:8080'' Map.empty)
        [DoListen None, ServeIndex (post ''text/plain'' ''a\<newline>b\<newline>c'')])
        (ServeIndex (post ''text/plain'' ''x\<newline>''))))) = 2
   \<and> sint (MessageCount (srv (step (run (process_start ''localhost:8080'' Map.empty)
        [DoListen None, ServeIndex (post ''text/plain'' ''a\<newline>b\<newline>c'')])
        (ServeIndex (post ''text/plain'' ''x\<newline>''))))) = 5
   \<and> sint (ByteTotal (srv (step (run (process_start ''localhost:8080'' Map.empty)
        [DoListen None, ServeIndex (post ''text/plain'' ''a\<newline>b\<newline>c'')])
        (ServeIndex (post ''text/plain'' ''x\<newline>''))))) = 7"
    using first
    by (simp add: scenario_run fits_int64_def Index_def Index_messages_def post_simps
        strings_Split.simps)
  have b: "no_overflow
        ((process_start ''localhost:8080'' Map.empty)
           \<lparr>srv := (NewServer ''localhost:8080'')\<lparr>ByteTotal := 0x7FFFFFFFFFFFFFFF\<rparr>\<rparr>)
        (ServeIndex (post ''application/xml'' ''x''))
   \<and> sint (ByteTotal (srv (step
        ((process_start ''localhost:8080'' Map.empty)
           \<lparr>srv := (NewServer ''localhost:8080'')\<lparr>ByteTotal := 0x7FFFFFFFFFFFFFFF\<rparr>\<rparr>)
        (ServeIndex (post ''application/xml'' ''x''))))) = 9223372036854775807"
    using xml
    by (simp add: process_start_def NewServer_def fits_int64_def Index_def
        Index_messages_def post_simps)
  have c: "(\<forall>r. Signal None None \<noteq> ServeIndex r)
   \<and> srv (step (run (process_start ''localhost:8080'' Map.empty)
        [DoListen None, ServeIndex (post ''text/plain'' ''a\<newline>b\<newline>c'')])
        (Signal None None))
      = srv (run (process_start ''localhost:8080'' Map.empty)
        [DoListen None, ServeIndex (post ''text/plain'' ''a\<newline>b\<newline>c'')])"
    using signal by simp
  have d: "exited ((process_start ''localhost:8080'' Map.empty)
           \<lparr>srv := (NewServer ''localhost:8080'')\<lparr>RequestCount := 0x7FFFFFFFFFFFFFFF\<rparr>\<rparr>)
      = None
   \<and> \<not> fits_int64 (sint (RequestCount (srv
        ((process_start ''localhost:8080'' Map.empty)
           \<lparr>srv := (NewServer ''localhost:8080'')\<lparr>RequestCount := 0x7FFFFFFFFFFFFFFF\<rparr>\<rparr>)))
        + 1)
   \<and> sint (RequestCount (srv (step
        ((process_start ''localhost:8080'' Map.empty)
           \<lparr>srv := (NewServer ''localhost:8080'')\<lparr>RequestCount := 0x7FFFFFFFFFFFFFFF\<rparr>\<rparr>)
        (ServeIndex (post ''text/plain'' ''x''))))) = - 9223372036854775808"
    using wrap
    by (simp add: process_start_def NewServer_def fits_int64_def Index_RequestCount)
  from a b c d show ?thesis by (elim conjE) (intro conjI; assumption)
qed

text \<open>
  The claim as it was stated has no exception. \<^verbatim>\<open>RequestCount\<close> is an \<^verbatim>\<open>int64\<close>:
  after \<open>2 ^ 63 - 1\<close> requests on a new server it holds the largest value, and the
  next request takes it to the lowest.
\<close>

theorem RequestCount_wraps_counterexample:
  "sint (RequestCount (serve_all (NewServer ''localhost:8080'')
      (replicate (2 ^ 63 - 1) (post ''text/plain'' [])))) = 2 ^ 63 - 1
   \<and> sint (RequestCount (fst (Index
        (serve_all (NewServer ''localhost:8080'')
          (replicate (2 ^ 63 - 1) (post ''text/plain'' [])))
        (post ''text/plain'' [])))) = - (2 ^ 63)
   \<and> sint (RequestCount (fst (Index
        (serve_all (NewServer ''localhost:8080'')
          (replicate (2 ^ 63 - 1) (post ''text/plain'' [])))
        (post ''text/plain'' []))))
      < sint (RequestCount (serve_all (NewServer ''localhost:8080'')
          (replicate (2 ^ 63 - 1) (post ''text/plain'' []))))"
  by (simp add: serve_all_RequestCount Index_RequestCount NewServer_def)

end
